theory Spec2Isabelle
  imports Main "HOL-Library.Sublist" "HOL-Library.AList"
begin

section \<open>Python values\<close>

text \<open>
  A Python \<^verbatim>\<open>str\<close> is a sequence of Unicode code points, and \<^verbatim>\<open>len\<close> and slicing count
  code points. It is modelled as a list of code points, so that the non-ASCII literals of
  the source (its error messages) are ordinary values; \<open>ascii\<close> embeds an ASCII literal.
\<close>

type_synonym pystr = "nat list"

definition ascii :: "string \<Rightarrow> pystr" where
  "ascii s = map of_char s"

text \<open>\<^verbatim>\<open>sub in s\<close> on strings is \<open>sublist sub s\<close>.\<close>

section \<open>utils/masking.py\<close>

text \<open>
  \<^verbatim>\<open>mask_session(session: str | None)\<close>: \<^verbatim>\<open>not session\<close> holds for \<^verbatim>\<open>None\<close> and for the
  empty string; \<^verbatim>\<open>session[:3]\<close> is \<open>take 3\<close> and \<^verbatim>\<open>session[-3:]\<close> keeps the last three
  code points (the whole string when it is shorter).
\<close>

definition mask_session :: "pystr option \<Rightarrow> pystr" where
  "mask_session session =
     (case session of
        None \<Rightarrow> []
      | Some s \<Rightarrow>
          if s = [] then []
          else if length s \<le> 6 then ascii ''***''
          else take 3 s @ ascii ''...'' @ drop (length s - 3) s)"

text \<open>
  \<^verbatim>\<open>mask_cookies(cookies: dict | str | None)\<close>. The argument is a tagged value; a dict is
  an association list in insertion order whose values are strings or \<^verbatim>\<open>None\<close>.
\<close>

datatype cookies_arg =
    CookiesNone
  | CookiesStr pystr
  | CookiesDict "(pystr \<times> pystr option) list"

definition mask_cookies :: "cookies_arg \<Rightarrow> cookies_arg" where
  "mask_cookies cookies =
     (case cookies of
        CookiesNone \<Rightarrow> CookiesDict []
      | CookiesStr s \<Rightarrow>
          if s = [] then CookiesDict []
          else if sublist (ascii ''session='') s then CookiesStr (ascii ''***session=***'')
          else CookiesStr s
      | CookiesDict d \<Rightarrow>
          if d = [] then CookiesDict []
          else CookiesDict
                 (map (\<lambda>(k, v). (k, if k = ascii ''session'' then Some (mask_session v) else v)) d))"

section \<open>utils/browser.py: results, faults and the outside world\<close>

text \<open>
  A dict with string keys is an association list in insertion order, written with
  \<open>AList.update\<close> (an existing key keeps its place, a new key goes last); \<^verbatim>\<open>k in d\<close> is
  membership in \<open>map fst d\<close>.
\<close>

type_synonym cookies = "(pystr \<times> pystr) list"

record BrowserResult =
  success :: bool
  waf_cookies :: cookies
  api_calls :: "pystr list"
  error :: "pystr option"

text \<open>
  Exceptions are values. \<open>Exception msg\<close> is any exception caught by
  \<^verbatim>\<open>except Exception\<close>, with \<^verbatim>\<open>str(e) = msg\<close>; \<open>HTTPStatusError msg code\<close> is
  \<^verbatim>\<open>httpx.HTTPStatusError\<close> with \<^verbatim>\<open>e.response.status_code = code\<close>. Cancellation and other
  \<^verbatim>\<open>BaseException\<close>s are outside the model.
\<close>

datatype exn = Exception pystr | HTTPStatusError pystr nat

fun exn_str :: "exn \<Rightarrow> pystr" where
  "exn_str (Exception msg) = msg"
| "exn_str (HTTPStatusError msg code) = msg"



text \<open>
  Every awaited call on Playwright, the file system or httpx is a call site. A run of one
  function passes each site at most once (a selector is queried once per list, and the
  three selector lists are disjoint), so the outside world of one run is given by what
  each site does: whether it raises, and what it returns.
\<close>

datatype site =
    MkDtemp | LaunchPersistentContext | AddInitScript | NewPage
  | GotoLogin | WaitForFunction | WaitPageLoadTimeout | ContextCookies
  | ClearCookies | WaitCookieSet | AddCookies | GotoHome | EvaluateUserSelf
  | WaitSigninTrigger
  | WaitForSelector | QuerySelector pystr | Fill pystr | Click pystr | PressEnter
  | WaitForUrl | EvaluateErrorText
  | ContextClose | Rmtree
  | ClientOpen | CookiesSet pystr | GetLogin | GetUserSelf | ClientClose

text \<open>
  What a run does is recorded as a trace: the call sites reached, in order, and the
  \<^verbatim>\<open>log(...)\<close> calls executed, each named by its line in browser.py. The logging sink is
  taken not to raise.
\<close>

datatype event = Call site | Log nat

record env =
  raises :: "site \<Rightarrow> exn option"
  requests :: "site \<Rightarrow> (pystr \<times> pystr) list"
  temp_dir_path :: pystr
  jar :: "(pystr option \<times> pystr option) list"
  user_self_success :: bool
  element :: "pystr \<Rightarrow> bool"
  page_url :: pystr
  error_text :: "pystr option"
  login_status :: nat
  login_final_url :: pystr
  user_self_status :: nat
  lower :: "pystr \<Rightarrow> pystr"
  repr_list :: "pystr list \<Rightarrow> pystr"

text \<open>
  \<open>raises env s = Some e\<close>: the call at \<open>s\<close> raises \<open>e\<close>. \<open>requests env s\<close>: the requests
  (method, URL) the page issues while the call at \<open>s\<close> is in progress. \<open>temp_dir_path\<close>:
  what \<^verbatim>\<open>tempfile.mkdtemp()\<close> returns. \<open>jar\<close>: what \<^verbatim>\<open>context.cookies()\<close> returns, each
  cookie as its \<^verbatim>\<open>get('name')\<close> and \<^verbatim>\<open>get('value')\<close>. \<open>user_self_success\<close>: whether the
  object returned by the in-page fetch has a true \<^verbatim>\<open>success\<close>. \<open>element env sel\<close>: whether
  \<^verbatim>\<open>query_selector(sel)\<close> returns an element. \<open>page_url\<close>: \<^verbatim>\<open>page.url\<close> when the wait for
  the console URL has failed. \<open>error_text\<close>: what the error-scraping script returns.
  \<open>login_status\<close>, \<open>login_final_url\<close>, \<open>user_self_status\<close>: the responses of the two GETs
  of the HTTP strategy. \<open>lower\<close> is \<^verbatim>\<open>str.lower\<close> and \<open>repr_list\<close> is \<^verbatim>\<open>str\<close> of a list of
  strings (as an f-string formats it), both Python built-ins taken as parameters.
\<close>

text \<open>
  The local variables of a run that its \<^verbatim>\<open>except\<close> and \<^verbatim>\<open>finally\<close> blocks and the request
  listener read: \<open>ctx\<close> (\<^verbatim>\<open>context\<close> is not \<^verbatim>\<open>None\<close>), \<open>temp_dir\<close>, the list
  \<^verbatim>\<open>api_calls\<close>, and whether the listener is attached to the page.
\<close>

record state =
  trace :: "event list"
  ctx :: bool
  temp_dir :: "pystr option"
  api_calls_var :: "pystr list"
  listening :: bool

definition fresh :: state where
  "fresh = \<lparr>trace = [], ctx = False, temp_dir = None, api_calls_var = [], listening = False\<rparr>"

text \<open>
  The state in which a strategy enters its \<^verbatim>\<open>try\<close> statement: nothing acquired, and the
  opening \<^verbatim>\<open>log(...)\<close> call (at \<open>line\<close>) made.
\<close>

definition started :: "nat \<Rightarrow> state" where
  "started line = fresh\<lparr>trace := [Log line]\<rparr>"

type_synonym 'a io = "state \<Rightarrow> (exn + 'a) \<times> state"

definition ret :: "'a \<Rightarrow> 'a io" where
  "ret x = (\<lambda>st. (Inr x, st))"

definition andthen :: "'a io \<Rightarrow> ('a \<Rightarrow> 'b io) \<Rightarrow> 'b io" where
  "andthen m f = (\<lambda>st. case m st of (Inl e, st') \<Rightarrow> (Inl e, st') | (Inr x, st') \<Rightarrow> f x st')"

fun steps :: "unit io list \<Rightarrow> unit io" where
  "steps [] = ret ()"
| "steps (m # ms) = andthen m (\<lambda>_. steps ms)"

text \<open>\<^verbatim>\<open>try: m  except Exception as e: h e\<close>\<close>

definition try_except :: "'a io \<Rightarrow> (exn \<Rightarrow> 'a io) \<Rightarrow> 'a io" where
  "try_except m h = (\<lambda>st. case m st of (Inl e, st') \<Rightarrow> h e st' | (Inr x, st') \<Rightarrow> (Inr x, st'))"

text \<open>
  \<^verbatim>\<open>try: m  finally: fin\<close>, and the exit of \<^verbatim>\<open>async with\<close>: \<open>fin\<close> runs however \<open>m\<close> ended;
  when \<open>fin\<close> raises, its exception replaces the outcome of \<open>m\<close> (a returned value
  included).
\<close>

definition try_finally :: "'a io \<Rightarrow> unit io \<Rightarrow> 'a io" where
  "try_finally m fin =
     (\<lambda>st. case m st of
              (r, st') \<Rightarrow> (case fin st' of (Inl e, st'') \<Rightarrow> (Inl e, st'') | (Inr _, st'') \<Rightarrow> (r, st'')))"

definition read :: "(state \<Rightarrow> 'a) \<Rightarrow> 'a io" where
  "read f = (\<lambda>st. (Inr (f st), st))"

definition modify :: "(state \<Rightarrow> state) \<Rightarrow> unit io" where
  "modify f = (\<lambda>st. (Inr (), f st))"

definition log :: "nat \<Rightarrow> unit io" where
  "log line = modify (\<lambda>st. st\<lparr>trace := trace st @ [Log line]\<rparr>)"

text \<open>\<^verbatim>\<open>_create_api_logger\<close>: the listener \<^verbatim>\<open>log_request\<close>, called for each request.\<close>

definition log_request :: "pystr \<times> pystr \<Rightarrow> state \<Rightarrow> state" where
  "log_request request st =
     (if sublist (ascii ''/api/'') (snd request)
      then st\<lparr>api_calls_var := api_calls_var st @ [fst request @ ascii '' '' @ snd request],
              trace := trace st @ [Log 176]\<rparr>
      else st)"

text \<open>
  One awaited call: the site is reached, the page's requests during it are seen by the
  listener (when attached), and the call returns or raises.
\<close>

definition observe :: "env \<Rightarrow> site \<Rightarrow> state \<Rightarrow> state" where
  "observe env s st =
     (let st1 = st\<lparr>trace := trace st @ [Call s]\<rparr>
      in if listening st1 then fold log_request (requests env s) st1 else st1)"

definition call :: "env \<Rightarrow> site \<Rightarrow> unit io" where
  "call env s =
     (\<lambda>st. case raises env s of
              Some e \<Rightarrow> (Inl e, observe env s st)
            | None \<Rightarrow> (Inr (), observe env s st))"

section \<open>utils/browser.py: session, cookies, cache\<close>

text \<open>\<^verbatim>\<open>_create_stealth_context\<close>: returns the context and the temporary directory.\<close>

definition create_stealth_context :: "env \<Rightarrow> pystr io" where
  "create_stealth_context env =
     andthen (steps [call env MkDtemp, call env LaunchPersistentContext, call env AddInitScript])
       (\<lambda>_. ret (temp_dir_path env))"

text \<open>\<^verbatim>\<open>context, temp_dir = await _create_stealth_context(p)\<close>\<close>

definition acquire :: "env \<Rightarrow> unit io" where
  "acquire env =
     andthen (create_stealth_context env)
       (\<lambda>d. modify (\<lambda>st. st\<lparr>ctx := True, temp_dir := Some d\<rparr>))"

text \<open>
  The \<^verbatim>\<open>finally\<close> block shared by the three browser functions (lines 201-208, 387-394,
  606-613): \<^verbatim>\<open>context.close()\<close> stands unguarded; \<^verbatim>\<open>shutil.rmtree\<close> is inside
  \<^verbatim>\<open>try ... except Exception: pass\<close>.
\<close>

definition release_session :: "env \<Rightarrow> unit io" where
  "release_session env =
     andthen (read ctx) (\<lambda>c.
     andthen (if c then call env ContextClose else ret ()) (\<lambda>_.
     andthen (read temp_dir) (\<lambda>d.
       if d \<noteq> None \<and> d \<noteq> Some []
       then try_except (call env Rmtree) (\<lambda>e. ret ())
       else ret ())))"

text \<open>\<^verbatim>\<open>_get_waf_cookies\<close>: the loop over the cookie jar.\<close>

definition harvest :: "pystr list \<Rightarrow> (pystr option \<times> pystr option) list \<Rightarrow> cookies" where
  "harvest required cs =
     fold (\<lambda>cookie waf.
             case cookie of
               (Some cookie_name, Some cookie_value) \<Rightarrow>
                 if cookie_name \<in> set required
                 then AList.update cookie_name cookie_value waf else waf
             | _ \<Rightarrow> waf)
          cs []"

definition get_waf_cookies :: "env \<Rightarrow> pystr list \<Rightarrow> cookies io" where
  "get_waf_cookies env required =
     andthen (call env ContextCookies) (\<lambda>_. ret (harvest required (jar env)))"

text \<open>\<^verbatim>\<open>_wait_for_page_load\<close>\<close>

definition wait_for_page_load :: "env \<Rightarrow> unit io" where
  "wait_for_page_load env =
     try_except (call env WaitForFunction) (\<lambda>e. call env WaitPageLoadTimeout)"

text \<open>\<^verbatim>\<open>all(c in d for c in required_cookies)\<close>\<close>

definition has_all :: "cookies \<Rightarrow> pystr list \<Rightarrow> bool" where
  "has_all d required = list_all (\<lambda>c. c \<in> set (map fst d)) required"

text \<open>\<^verbatim>\<open>_get_waf_cookies_from_browser\<close>\<close>

definition get_waf_cookies_from_browser :: "env \<Rightarrow> pystr list \<Rightarrow> (exn + cookies) \<times> state" where
  "get_waf_cookies_from_browser env required =
     try_finally
       (andthen (steps [acquire env, call env NewPage, call env GotoLogin, wait_for_page_load env])
          (\<lambda>_. get_waf_cookies env required))
       (release_session env)
       fresh"

text \<open>
  \<^verbatim>\<open>get_cached_waf_cookies\<close>, the body under \<^verbatim>\<open>async with _cache_lock\<close>. The module's
  \<^verbatim>\<open>_waf_cookie_cache\<close> is passed in and returned; \<open>log_fn\<close> says whether a sink was given.
  The result is the returned value (or the exception that escapes), the cache afterwards,
  and the trace.
\<close>

type_synonym cache = "(pystr \<times> cookies) list"

definition cache_hit :: "cache \<Rightarrow> pystr \<Rightarrow> pystr list \<Rightarrow> bool" where
  "cache_hit cache domain required =
     (case map_of cache domain of None \<Rightarrow> False | Some cached \<Rightarrow> has_all cached required)"

definition get_cached_waf_cookies ::
  "env \<Rightarrow> bool \<Rightarrow> cache \<Rightarrow> pystr \<Rightarrow> pystr list \<Rightarrow> (exn + cookies option) \<times> cache \<times> event list" where
  "get_cached_waf_cookies env log_fn cache domain required =
     (if cache_hit cache domain required
      then (Inr (map_of cache domain), cache, if log_fn then [Log 225] else [])
      else
        let before = (if log_fn then [Log 230] else [])
        in case get_waf_cookies_from_browser env required of
             (Inl e, st) \<Rightarrow> (Inl e, cache, before @ trace st)
           | (Inr waf, st) \<Rightarrow>
               if waf \<noteq> [] \<and> has_all waf required
               then (Inr (Some waf), AList.update domain waf cache,
                     before @ trace st @ (if log_fn then [Log 237] else []))
               else (Inr None, cache, before @ trace st))"

text \<open>\<^verbatim>\<open>clear_waf_cookie_cache\<close>\<close>

definition clear_waf_cookie_cache :: "cache \<Rightarrow> cache" where
  "clear_waf_cookie_cache cache = []"

section \<open>utils/browser.py: the signin strategies\<close>

text \<open>The \<^verbatim>\<open>except Exception as e\<close> block of a browser strategy; \<open>line\<close> is its log line.\<close>

definition fault_result :: "nat \<Rightarrow> exn \<Rightarrow> BrowserResult io" where
  "fault_result line e =
     andthen (log line) (\<lambda>_.
       ret \<lparr>success = False, waf_cookies = [], api_calls = [],
            error = Some (take 100 (exn_str e))\<rparr>)"

text \<open>\<^verbatim>\<open>page.on('request', _create_api_logger(api_calls, log))\<close> with \<^verbatim>\<open>api_calls = []\<close>\<close>

definition attach_api_logger :: "unit io" where
  "attach_api_logger = modify (\<lambda>st. st\<lparr>api_calls_var := [], listening := True\<rparr>)"

definition append_api_call :: "pystr \<Rightarrow> unit io" where
  "append_api_call c = modify (\<lambda>st. st\<lparr>api_calls_var := api_calls_var st @ [c]\<rparr>)"

subsection \<open>Cookie-Replay: \<^verbatim>\<open>get_waf_cookies_and_trigger_signin\<close>\<close>

definition missing_waf_cookies :: pystr where
  "missing_waf_cookies = [32570, 23569] @ ascii '' WAF cookies: ''"

text \<open>Step six (lines 328-355): the in-page fetch, inside its own \<^verbatim>\<open>try\<close>.\<close>

definition call_user_self :: "env \<Rightarrow> pystr \<Rightarrow> unit io" where
  "call_user_self env domain =
     try_except
       (andthen (call env EvaluateUserSelf) (\<lambda>_.
          if user_self_success env
          then steps [log 350, append_api_call (ascii ''GET '' @ domain @ ascii ''/api/user/self (browser)'')]
          else log 353))
       (\<lambda>e. log 355)"

text \<open>Lines 361-367.\<close>

definition log_api_calls :: "unit io" where
  "log_api_calls =
     andthen (read api_calls_var) (\<lambda>calls.
       if calls \<noteq> []
       then steps (log 362 # map (\<lambda>c. if sublist (ascii ''user/self'') c then log 365 else ret ()) calls)
       else log 367)"

text \<open>The \<^verbatim>\<open>try\<close> block, lines 286-375.\<close>

definition replay_try :: "env \<Rightarrow> pystr \<Rightarrow> pystr list \<Rightarrow> BrowserResult io" where
  "replay_try env domain required =
     andthen (steps [acquire env, call env NewPage, log 290, call env GotoLogin,
                     wait_for_page_load env]) (\<lambda>_.
     andthen (get_waf_cookies env required) (\<lambda>waf.
       let missing_cookies = filter (\<lambda>c. c \<notin> set (map fst waf)) required
       in if missing_cookies \<noteq> []
          then andthen (log 298) (\<lambda>_.
                 ret \<lparr>success = False, waf_cookies = [], api_calls = [],
                      error = Some (missing_waf_cookies @ repr_list env missing_cookies)\<rparr>)
          else
            andthen (steps [log 306, attach_api_logger,
                            log 313, call env ClearCookies, call env WaitCookieSet,
                            log 318, call env AddCookies,
                            log 323, call env GotoHome,
                            log 327, call_user_self env domain,
                            log 357, call env WaitSigninTrigger,
                            log_api_calls, log 369]) (\<lambda>_.
            andthen (read api_calls_var) (\<lambda>calls.
              ret \<lparr>success = True, waf_cookies = waf, api_calls = calls, error = None\<rparr>))))"

definition get_waf_cookies_and_trigger_signin ::
  "env \<Rightarrow> pystr \<Rightarrow> pystr list \<Rightarrow> (exn + BrowserResult) \<times> state" where
  "get_waf_cookies_and_trigger_signin env domain required =
     try_finally
       (try_except (replay_try env domain required) (fault_result 379))
       (release_session env)
       (started 280)"

subsection \<open>Credential-Login: \<^verbatim>\<open>perform_real_login_signin\<close>\<close>







text \<open>
  The three selector loops (lines 479-488, 501-510, 534-543) have one shape: for each
  selector, inside \<^verbatim>\<open>try\<close>, query it and, when an element is returned, act on it (\<open>act\<close>
  is \<open>Fill\<close> or \<open>Click\<close>), set the flag, log and \<^verbatim>\<open>break\<close>; \<^verbatim>\<open>except Exception: continue\<close>.
  The result is the flag.
\<close>

definition attempt :: "env \<Rightarrow> (pystr \<Rightarrow> site) \<Rightarrow> nat \<Rightarrow> pystr \<Rightarrow> bool io" where
  "attempt env act line selector =
     try_except
       (andthen (call env (QuerySelector selector)) (\<lambda>_.
          if element env selector
          then andthen (call env (act selector)) (\<lambda>_. andthen (log line) (\<lambda>_. ret True))
          else ret False))
       (\<lambda>e. ret False)"

fun first_match :: "env \<Rightarrow> (pystr \<Rightarrow> site) \<Rightarrow> nat \<Rightarrow> pystr list \<Rightarrow> bool io" where
  "first_match env act line [] = ret False"
| "first_match env act line (selector # selectors) =
     andthen (attempt env act line selector)
       (\<lambda>done. if done then ret True else first_match env act line selectors)"


text \<open>Lines 582-586.\<close>

definition log_api_calls_login :: "unit io" where
  "log_api_calls_login =
     andthen (read api_calls_var) (\<lambda>calls.
       if calls \<noteq> []
       then steps (log 583 # map (\<lambda>c. if sublist (ascii ''user/self'') c then log 586 else ret ()) calls)
       else ret ())"



subsection \<open>HTTP-Only-Replay: \<^verbatim>\<open>trigger_signin_via_http\<close>\<close>








section \<open>Concurrent callers of the cache\<close>

text \<open>
  Two tasks call \<^verbatim>\<open>get_cached_waf_cookies\<close> for the same domain with the same required
  list. An asyncio task runs until it awaits something that is not ready. Entering
  \<^verbatim>\<open>async with _cache_lock\<close> when the lock is free, checking the cache and returning a
  cached entry do not suspend; waiting for a held lock does; the browser extraction does;
  storing the result and leaving the locked region do not. So a caller is waiting to enter,
  or inside the extraction with the lock held, or done with its result (a value or an
  escaped exception).
\<close>

datatype caller = First | Second

datatype progress = Waiting | Extracting | Done "exn + cookies option"

record shared =
  store :: cache
  locked :: bool
  at :: "caller \<Rightarrow> progress"
  launched :: "caller \<Rightarrow> bool"

text \<open>
  \<open>store\<close> is \<^verbatim>\<open>_waf_cookie_cache\<close>, \<open>locked\<close> is the state of \<^verbatim>\<open>_cache_lock\<close>, and
  \<open>launched t\<close> records that caller \<open>t\<close> has started a browser extraction.
\<close>

definition initially :: "cache \<Rightarrow> shared" where
  "initially cache =
     \<lparr>store = cache, locked = False, at = (\<lambda>t. Waiting), launched = (\<lambda>t. False)\<rparr>"

text \<open>
  The event loop lets caller \<open>t\<close> run to its next suspension. \<open>envs t\<close> is the outside world
  of the extraction caller \<open>t\<close> performs. While the lock is held the store does not change,
  so the call that finishes an extraction is \<open>get_cached_waf_cookies\<close> on the store as it
  is.
\<close>

definition advance ::
  "(caller \<Rightarrow> env) \<Rightarrow> bool \<Rightarrow> pystr \<Rightarrow> pystr list \<Rightarrow> caller \<Rightarrow> shared \<Rightarrow> shared" where
  "advance envs log_fn domain required t s =
     (case at s t of
        Waiting \<Rightarrow>
          if locked s then s
          else if cache_hit (store s) domain required
          then s\<lparr>at := (at s)(t := Done (fst (get_cached_waf_cookies (envs t) log_fn (store s)
                                                  domain required)))\<rparr>
          else s\<lparr>locked := True, at := (at s)(t := Extracting),
                 launched := (launched s)(t := True)\<rparr>
      | Extracting \<Rightarrow>
          s\<lparr>store := fst (snd (get_cached_waf_cookies (envs t) log_fn (store s) domain required)),
            locked := False,
            at := (at s)(t := Done (fst (get_cached_waf_cookies (envs t) log_fn (store s)
                                           domain required)))\<rparr>
      | Done r \<Rightarrow> s)"

text \<open>A schedule is the order in which the event loop resumes the callers.\<close>

definition run_schedule ::
  "(caller \<Rightarrow> env) \<Rightarrow> bool \<Rightarrow> pystr \<Rightarrow> pystr list \<Rightarrow> caller list \<Rightarrow> shared \<Rightarrow> shared" where
  "run_schedule envs log_fn domain required schedule s =
     fold (advance envs log_fn domain required) schedule s"

text \<open>A caller has ended with a map: its call returned a cache entry.\<close>

fun got_map :: "progress \<Rightarrow> bool" where
  "got_map (Done (Inr (Some m))) = True"
| "got_map p = False"

text \<open>A caller has ended without a map: its call returned \<^verbatim>\<open>None\<close> or raised.\<close>

fun got_nothing :: "progress \<Rightarrow> bool" where
  "got_nothing (Done (Inr None)) = True"
| "got_nothing (Done (Inl e)) = True"
| "got_nothing p = False"

section \<open>Vocabulary of the properties\<close>

text \<open>The call sites of a trace, in order.\<close>

fun calls :: "event list \<Rightarrow> site list" where
  "calls [] = []"
| "calls (Call s # evs) = s # calls evs"
| "calls (Log n # evs) = calls evs"

text \<open>The selectors queried, in order.\<close>

fun queried :: "site list \<Rightarrow> pystr list" where
  "queried [] = []"
| "queried (QuerySelector sel # ss) = sel # queried ss"
| "queried (s # ss) = queried ss"

text \<open>No call at one of \<open>sites\<close> raises.\<close>

definition no_fault :: "env \<Rightarrow> site list \<Rightarrow> bool" where
  "no_fault env sites = list_all (\<lambda>s. raises env s = None) sites"

text \<open>Acquiring the session, and reaching the harvested cookies.\<close>

definition session_sites :: "site list" where
  "session_sites = [MkDtemp, LaunchPersistentContext, AddInitScript]"

definition harvest_sites :: "site list" where
  "harvest_sites = session_sites @ [NewPage, GotoLogin, ContextCookies]"

text \<open>\<^verbatim>\<open>_wait_for_page_load\<close> returns: the wait for the ready state or its fallback does.\<close>

definition page_loads :: "env \<Rightarrow> bool" where
  "page_loads env = (raises env WaitForFunction = None \<or> raises env WaitPageLoadTimeout = None)"

text \<open>
  A selector matches when its query returns an element; it wins a loop when, moreover,
  the action on the element (fill or click) does not raise.
\<close>

definition matches :: "env \<Rightarrow> pystr \<Rightarrow> bool" where
  "matches env selector = (raises env (QuerySelector selector) = None \<and> element env selector)"

definition wins :: "env \<Rightarrow> (pystr \<Rightarrow> site) \<Rightarrow> pystr \<Rightarrow> bool" where
  "wins env act selector = (matches env selector \<and> raises env (act selector) = None)"

text \<open>The selectors of a list up to and including the first that wins.\<close>

definition tried :: "env \<Rightarrow> (pystr \<Rightarrow> site) \<Rightarrow> pystr list \<Rightarrow> pystr list" where
  "tried env act selectors =
     takeWhile (\<lambda>s. \<not> wins env act s) selectors
     @ take 1 (dropWhile (\<lambda>s. \<not> wins env act s) selectors)"

text \<open>The state in which a selector loop ends.\<close>

definition loop_state :: "env \<Rightarrow> (pystr \<Rightarrow> site) \<Rightarrow> nat \<Rightarrow> pystr list \<Rightarrow> state \<Rightarrow> state" where
  "loop_state env act line selectors st = snd (first_match env act line selectors st)"

text \<open>
  What the listener appends to \<^verbatim>\<open>api_calls\<close> for a list of requests, and the events and
  entries that calls at the sites \<open>ss\<close> add when the listener is attached (\<open>l\<close>) or not.
\<close>

definition heard :: "(pystr \<times> pystr) list \<Rightarrow> pystr list" where
  "heard rs = map (\<lambda>r. fst r @ ascii '' '' @ snd r)
                  (filter (\<lambda>r. sublist (ascii ''/api/'') (snd r)) rs)"

definition seen :: "env \<Rightarrow> bool \<Rightarrow> site list \<Rightarrow> event list" where
  "seen env l ss =
     concat (map (\<lambda>s. Call s # (if l then replicate (length (heard (requests env s))) (Log 176)
                                 else [])) ss)"

definition heard_at :: "env \<Rightarrow> bool \<Rightarrow> site list \<Rightarrow> pystr list" where
  "heard_at env l ss = (if l then concat (map (\<lambda>s. heard (requests env s)) ss) else [])"

text \<open>Appending events to the trace and entries to \<^verbatim>\<open>api_calls\<close>.\<close>

definition emit :: "event list \<Rightarrow> pystr list \<Rightarrow> state \<Rightarrow> state" where
  "emit evs entries st =
     st\<lparr>trace := trace st @ evs, api_calls_var := api_calls_var st @ entries\<rparr>"

text \<open>Every value a computation returns satisfies \<open>P\<close>.\<close>

definition returns_only :: "'a io \<Rightarrow> ('a \<Rightarrow> bool) \<Rightarrow> bool" where
  "returns_only m P = (\<forall>st r st'. m st = (Inr r, st') \<longrightarrow> P r)"

text \<open>
  The two callers are serialised: the lock is held exactly while one caller extracts, and
  then the store has no complete entry; a caller that waits has launched nothing; once a
  caller has ended with a map the store holds a complete entry; and both callers have
  launched a browser only if one of them has ended without a map.
\<close>

definition serialised :: "pystr \<Rightarrow> pystr list \<Rightarrow> shared \<Rightarrow> bool" where
  "serialised domain required s =
     ((locked s \<longleftrightarrow> (\<exists>t. at s t = Extracting))
      \<and> (\<forall>t t'. at s t = Extracting \<and> at s t' = Extracting \<longrightarrow> t = t')
      \<and> (\<forall>t. at s t = Extracting \<longrightarrow> launched s t)
      \<and> (\<forall>t. at s t = Waiting \<longrightarrow> \<not> launched s t)
      \<and> (locked s \<longrightarrow> \<not> cache_hit (store s) domain required)
      \<and> ((\<exists>t. got_map (at s t)) \<longrightarrow> cache_hit (store s) domain required)
      \<and> (launched s First \<and> launched s Second \<longrightarrow> (\<exists>t. got_nothing (at s t))))"

section \<open>A sample world\<close>

text \<open>
  \<open>ascii_lower\<close> is \<^verbatim>\<open>str.lower\<close> on ASCII strings; \<open>repr_plain\<close> is \<^verbatim>\<open>str\<close> of a list of
  strings that need no escaping.
\<close>

definition ascii_lower :: "pystr \<Rightarrow> pystr" where
  "ascii_lower s = map (\<lambda>c. if 65 \<le> c \<and> c \<le> 90 then c + 32 else c) s"

fun join_plain :: "pystr list \<Rightarrow> pystr" where
  "join_plain [] = []"
| "join_plain [x] = [39] @ x @ [39]"
| "join_plain (x # xs) = [39] @ x @ [39] @ ascii '', '' @ join_plain xs"

definition repr_plain :: "pystr list \<Rightarrow> pystr" where
  "repr_plain xs = ascii ''['' @ join_plain xs @ ascii '']''"

text \<open>
  A world in which every call returns: the jar holds \<open>waf_a\<close>, \<open>waf_b\<close> and an unrelated
  cookie, the home page calls the identity endpoint, every selector matches, and the login
  URL redirects to the console.
\<close>

definition world :: env where
  "world =
     \<lparr>raises = (\<lambda>s. None),
      requests = (\<lambda>s. if s = GotoHome
                       then [(ascii ''GET'', ascii ''https://example.org/api/user/self'')] else []),
      temp_dir_path = ascii ''/tmp/tmpab12'',
      jar = [(Some (ascii ''waf_a''), Some (ascii ''x'')),
             (Some (ascii ''lang''), Some (ascii ''en'')),
             (Some (ascii ''waf_b''), Some (ascii ''y''))],
      user_self_success = True,
      element = (\<lambda>selector. True),
      page_url = ascii ''https://example.org/console'',
      error_text = None,
      login_status = 200,
      login_final_url = ascii ''https://example.org/console'',
      user_self_status = 200,
      lower = ascii_lower,
      repr_list = repr_plain\<rparr>"

definition boom :: exn where
  "boom = Exception (ascii ''Target closed'')"

section \<open>Masking: what is redacted\<close>

lemma map_of_masked:
  "map_of (map (\<lambda>(k, v). (k, if k = key then Some (f v) else v)) d) k' =
     (if k' = key then map_option (\<lambda>v. Some (f v)) (map_of d k') else map_of d k')"
  by (induction d) auto

lemma keys_masked:
  "map fst (map (\<lambda>(k, v). (k, if k = key then Some (f v) else v)) d) = map fst d"
  by (induction d) auto

text \<open>
  C10. \<open>mask_cookies\<close> on a dictionary keeps the keys in order, leaves the value of every
  key other than \<open>session\<close> as it is, and replaces the value of \<open>session\<close> by its
  \<open>mask_session\<close>. \<open>mask_session\<close> of a value longer than six code points is nine code
  points long: the first three of the value, three dots, the last three of the value; so of
  a seven-character value only the fourth character is hidden. A non-empty value of at
  most six code points becomes \<open>***\<close>; the empty string and \<^verbatim>\<open>None\<close> become the empty
  string.
\<close>

theorem mask_cookies_redacts_only_session:
  "(\<exists>d'. mask_cookies (CookiesDict d) = CookiesDict d'
      \<and> map fst d' = map fst d
      \<and> (\<forall>k. k \<noteq> ascii ''session'' \<longrightarrow> map_of d' k = map_of d k)
      \<and> map_of d' (ascii ''session'')
            = map_option (\<lambda>v. Some (mask_session v)) (map_of d (ascii ''session'')))
   \<and> (6 < length s \<longrightarrow>
        mask_session (Some s)
          = [s ! 0, s ! 1, s ! 2] @ ascii ''...''
            @ [s ! (length s - 3), s ! (length s - 2), s ! (length s - 1)])
   \<and> (length s = 7 \<longrightarrow>
        mask_session (Some s) = [s ! 0, s ! 1, s ! 2] @ ascii ''...'' @ [s ! 4, s ! 5, s ! 6])
   \<and> (s \<noteq> [] \<and> length s \<le> 6 \<longrightarrow> mask_session (Some s) = ascii ''***'')
   \<and> mask_session (Some []) = []
   \<and> mask_session None = []"
proof -
  have dict: "\<exists>d'. mask_cookies (CookiesDict d) = CookiesDict d'
      \<and> map fst d' = map fst d
      \<and> (\<forall>k. k \<noteq> ascii ''session'' \<longrightarrow> map_of d' k = map_of d k)
      \<and> map_of d' (ascii ''session'')
            = map_option (\<lambda>v. Some (mask_session v)) (map_of d (ascii ''session''))"
  proof (cases "d = []")
    case True
    then show ?thesis by (simp add: mask_cookies_def)
  next
    case False
    then show ?thesis
      by (auto simp: mask_cookies_def map_of_masked)
  qed
  have first3: "take 3 s = [s ! 0, s ! 1, s ! 2]" if "6 < length s"
    by (rule nth_equalityI) (use that in \<open>auto simp: less_Suc_eq numeral_3_eq_3 numeral_2_eq_2\<close>)
  have last3: "drop (length s - 3) s
                 = [s ! (length s - 3), s ! (length s - 2), s ! (length s - 1)]"
    if "6 < length s"
  proof -
    define n where "n = length s - 3"
    have n: "length s = n + 3" using that by (simp add: n_def)
    have "drop n s = [s ! n, s ! (n + 1), s ! (n + 2)]"
      by (rule nth_equalityI) (auto simp: n less_Suc_eq numeral_3_eq_3)
    then show ?thesis by (simp add: n)
  qed
  have long: "6 < length s \<longrightarrow>
        mask_session (Some s)
          = [s ! 0, s ! 1, s ! 2] @ ascii ''...''
            @ [s ! (length s - 3), s ! (length s - 2), s ! (length s - 1)]"
  proof
    assume l: "6 < length s"
    then have "s \<noteq> []" by auto
    with l show "mask_session (Some s)
          = [s ! 0, s ! 1, s ! 2] @ ascii ''...''
            @ [s ! (length s - 3), s ! (length s - 2), s ! (length s - 1)]"
      using first3 last3 by (simp add: mask_session_def)
  qed
  have seven: "length s = 7 \<longrightarrow>
        mask_session (Some s) = [s ! 0, s ! 1, s ! 2] @ ascii ''...'' @ [s ! 4, s ! 5, s ! 6]"
    using long by auto
  have short: "s \<noteq> [] \<and> length s \<le> 6 \<longrightarrow> mask_session (Some s) = ascii ''***''"
    by (simp add: mask_session_def)
  have empty: "mask_session (Some []) = []" "mask_session None = []"
    by (simp_all add: mask_session_def)
  from dict long seven short empty show ?thesis by blast
qed

theorem mask_cookies_redacts_only_session_witness:
  "(\<exists>d'. mask_cookies (CookiesDict [(ascii ''cf_clearance'', Some (ascii ''secret-token'')),
                                     (ascii ''session'', Some (ascii ''abcdefg''))])
            = CookiesDict d'
      \<and> map_of d' (ascii ''cf_clearance'') = Some (Some (ascii ''secret-token''))
      \<and> map_of d' (ascii ''session'') = Some (Some (ascii ''abc...efg'')))
   \<and> mask_session (Some (ascii ''abcdefg'')) = ascii ''abc...efg''
   \<and> mask_session (Some (ascii ''abcdef'')) = ascii ''***''"
  using mask_cookies_redacts_only_session
    [of "[(ascii ''cf_clearance'', Some (ascii ''secret-token'')),
          (ascii ''session'', Some (ascii ''abcdefg''))]" "ascii ''abcdefg''"]
    mask_cookies_redacts_only_session [of "[]" "ascii ''abcdef''"]
  by (simp add: ascii_def mask_session_def mask_cookies_def)

section \<open>How the primitives behave\<close>

lemmas io_defs = andthen_def try_except_def try_finally_def ret_def read_def modify_def log_def
  call_def

lemma calls_append [simp]: "calls (xs @ ys) = calls xs @ calls ys"
  by (induction xs rule: calls.induct) simp_all

lemma queried_append [simp]: "queried (xs @ ys) = queried xs @ queried ys"
  by (induction xs rule: queried.induct) simp_all

text \<open>The listener only appends to \<^verbatim>\<open>api_calls\<close> and logs at line 176.\<close>

lemma fold_log_request_fields [simp]:
  "ctx (fold log_request rs st) = ctx st"
  "temp_dir (fold log_request rs st) = temp_dir st"
  "listening (fold log_request rs st) = listening st"
  by (induction rs arbitrary: st) (simp_all add: log_request_def)

lemma fold_log_request_calls [simp]:
  "calls (trace (fold log_request rs st)) = calls (trace st)"
  by (induction rs arbitrary: st) (simp_all add: log_request_def)

lemma fold_log_request_logs:
  "n \<noteq> 176 \<Longrightarrow> Log n \<in> set (trace (fold log_request rs st)) \<longleftrightarrow> Log n \<in> set (trace st)"
  by (induction rs arbitrary: st) (simp_all add: log_request_def)

lemma observe_fields [simp]:
  "ctx (observe env s st) = ctx st"
  "temp_dir (observe env s st) = temp_dir st"
  "listening (observe env s st) = listening st"
  "calls (trace (observe env s st)) = calls (trace st) @ [s]"
  by (simp_all add: observe_def Let_def)

lemma observe_logs [simp]:
  "n \<noteq> 176 \<Longrightarrow> Log n \<in> set (trace (observe env s st)) \<longleftrightarrow> Log n \<in> set (trace st)"
  by (simp add: observe_def Let_def fold_log_request_logs)

lemma observe_api_calls [simp]:
  "\<not> listening st \<Longrightarrow> api_calls_var (observe env s st) = api_calls_var st"
  by (simp add: observe_def)

text \<open>The two loops over \<^verbatim>\<open>api_calls\<close> only log.\<close>

lemma steps_logs:
  "steps (map (\<lambda>c. if P c then log n else ret ()) cs)
     = modify (\<lambda>st. st\<lparr>trace := trace st @ replicate (length (filter P cs)) (Log n)\<rparr>)"
proof (induction cs)
  case Nil
  show ?case by (simp add: io_defs)
next
  case (Cons c cs)
  show ?case by (rule ext) (simp add: Cons io_defs replicate_app_Cons_same)
qed

lemma log_api_calls_eq:
  "log_api_calls =
     modify (\<lambda>st. st\<lparr>trace := trace st @
        (if api_calls_var st \<noteq> []
         then Log 362 # replicate (length (filter (sublist (ascii ''user/self'')) (api_calls_var st))) (Log 365)
         else [Log 367])\<rparr>)"
  by (rule ext) (simp add: log_api_calls_def steps_logs io_defs)

lemma log_api_calls_login_eq:
  "log_api_calls_login =
     modify (\<lambda>st. st\<lparr>trace := trace st @
        (if api_calls_var st \<noteq> []
         then Log 583 # replicate (length (filter (sublist (ascii ''user/self'')) (api_calls_var st))) (Log 586)
         else [])\<rparr>)"
  by (rule ext) (simp add: log_api_calls_login_def steps_logs io_defs)

text \<open>A selector loop never raises; it returns whether some selector wins.\<close>

lemma attempt_result:
  "fst (attempt env act line sel st) = Inr (wins env act sel)"
  by (auto simp: attempt_def io_defs wins_def matches_def split: option.splits)

lemma attempt_eq:
  "attempt env act line sel st = (Inr (wins env act sel), snd (attempt env act line sel st))"
  by (simp add: prod_eq_iff attempt_result)

lemma attempt_fields [simp]:
  "ctx (snd (attempt env act line sel st)) = ctx st"
  "temp_dir (snd (attempt env act line sel st)) = temp_dir st"
  "listening (snd (attempt env act line sel st)) = listening st"
  by (auto simp: attempt_def io_defs split: option.splits)

lemma attempt_queried:
  "queried [act sel] = [] \<Longrightarrow>
   queried (calls (trace (snd (attempt env act line sel st)))) = queried (calls (trace st)) @ [sel]"
  by (auto simp: attempt_def io_defs split: option.splits)

lemma first_match_result:
  "fst (first_match env act line sels st) = Inr (list_ex (wins env act) sels)"
proof (induction sels arbitrary: st)
  case Nil
  then show ?case by (simp add: ret_def)
next
  case (Cons sel sels)
  obtain st' where a: "attempt env act line sel st = (Inr (wins env act sel), st')"
    using attempt_eq by blast
  show ?case using Cons [of st'] by (simp add: andthen_def a ret_def)
qed

lemma first_match_eq:
  "first_match env act line sels =
     (\<lambda>st. (Inr (list_ex (wins env act) sels), loop_state env act line sels st))"
  by (rule ext) (simp add: loop_state_def prod_eq_iff first_match_result)

lemma loop_state_Nil [simp]: "loop_state env act line [] st = st"
  by (simp add: loop_state_def ret_def)

lemma loop_state_Cons:
  "loop_state env act line (sel # sels) st =
     (if wins env act sel then snd (attempt env act line sel st)
      else loop_state env act line sels (snd (attempt env act line sel st)))"
proof -
  obtain st' where a: "attempt env act line sel st = (Inr (wins env act sel), st')"
    using attempt_eq by blast
  show ?thesis by (simp add: loop_state_def andthen_def ret_def a)
qed

lemma loop_state_fields [simp]:
  "ctx (loop_state env act line sels st) = ctx st"
  "temp_dir (loop_state env act line sels st) = temp_dir st"
  "listening (loop_state env act line sels st) = listening st"
  by (induction sels arbitrary: st) (simp_all add: loop_state_Cons)

lemma loop_state_queried:
  "(\<And>sel. queried [act sel] = []) \<Longrightarrow>
   queried (calls (trace (loop_state env act line sels st)))
     = queried (calls (trace st)) @ tried env act sels"
  by (induction sels arbitrary: st) (simp_all add: loop_state_Cons attempt_queried tried_def)

lemma missing_iff:
  "filter (\<lambda>c. c \<notin> fst ` set w) required \<noteq> [] \<longleftrightarrow> \<not> has_all w required"
  "filter (\<lambda>c. c \<notin> fst ` set w) required = [] \<longleftrightarrow> has_all w required"
  by (auto simp: has_all_def filter_empty_conv list_all_iff)

lemmas replay_defs = get_waf_cookies_and_trigger_signin_def replay_try_def io_defs acquire_def
  create_stealth_context_def release_session_def get_waf_cookies_def wait_for_page_load_def
  no_fault_def harvest_sites_def session_sites_def started_def fresh_def Let_def missing_iff
  fault_result_def page_loads_def call_user_self_def attach_api_logger_def append_api_call_def
  log_api_calls_eq


lemmas world_defs = world_def boom_def ascii_def ascii_lower_def repr_plain_def harvest_def
  has_all_def cache_hit_def missing_waf_cookies_def

section \<open>The cookie cache\<close>

text \<open>
  C3. On a cache miss (no entry for the domain, or an entry lacking a required name), when
  the browser extraction returns a map that is empty or lacks a required name,
  \<open>get_cached_waf_cookies\<close> returns \<^verbatim>\<open>None\<close> (no exception) and the cache is exactly what it
  was before the call.
\<close>

theorem incomplete_extraction_not_cached:
  assumes "\<not> cache_hit cache domain required"
      and "fst (get_waf_cookies_from_browser env required) = Inr waf"
      and "waf = [] \<or> \<not> has_all waf required"
  shows "fst (get_cached_waf_cookies env log_fn cache domain required) = Inr None
       \<and> fst (snd (get_cached_waf_cookies env log_fn cache domain required)) = cache"
  using assms by (cases "get_waf_cookies_from_browser env required")
    (auto simp: get_cached_waf_cookies_def Let_def)

theorem incomplete_extraction_not_cached_witness:
  "fst (get_cached_waf_cookies (world\<lparr>jar := [(Some (ascii ''waf_a''), Some (ascii ''x''))]\<rparr>)
          False [] (ascii ''https://example.org'') [ascii ''waf_a'', ascii ''waf_b''])
     = Inr None
   \<and> fst (snd (get_cached_waf_cookies (world\<lparr>jar := [(Some (ascii ''waf_a''), Some (ascii ''x''))]\<rparr>)
          False [] (ascii ''https://example.org'') [ascii ''waf_a'', ascii ''waf_b'']))
     = []"
  using incomplete_extraction_not_cached
    [of "[]" "ascii ''https://example.org''" "[ascii ''waf_a'', ascii ''waf_b'']"
        "world\<lparr>jar := [(Some (ascii ''waf_a''), Some (ascii ''x''))]\<rparr>"
        "[(ascii ''waf_a'', ascii ''x'')]" False]
  by (simp add: get_waf_cookies_from_browser_def replay_defs world_defs)

section \<open>Cookie-Replay\<close>





section \<open>Unexpected faults\<close>



end
